theory Spec2Isabelle
  imports Main "HOL-Library.Sublist" "HOL-Library.Char_ord" "HOL-Library.List_Lexorder"
begin

section \<open>Python string primitives used by the sources\<close>

text \<open>
  Strings are character lists. \<open>s.startswith(p)\<close> is \<^const>\<open>prefix\<close>,
  \<open>s[:-1]\<close> is \<^const>\<open>butlast\<close> (the empty string stays empty) and
  \<open>sep.join(xs)\<close> is \<open>join\<close>.
\<close>

fun join :: "string \<Rightarrow> string list \<Rightarrow> string" where
  "join sep [] = []"
| "join sep [x] = x"
| "join sep (x # y # ys) = x @ sep @ join sep (y # ys)"

text \<open>
  \<open>s.replace(old, new)\<close>: every non-overlapping occurrence of \<open>old\<close>, found from the
  left, is replaced. For the empty pattern Python puts \<open>new\<close> before every character and
  at the end.
\<close>

function str_replace :: "string \<Rightarrow> string \<Rightarrow> string \<Rightarrow> string" where
  "str_replace [] new s = new @ concat (map (\<lambda>c. c # new) s)"
| "str_replace (a # old) new [] = []"
| "str_replace (a # old) new (c # cs) =
     (if prefix (a # old) (c # cs)
      then new @ str_replace (a # old) new (drop (length (a # old)) (c # cs))
      else c # str_replace (a # old) new cs)"
  by pat_completeness auto
termination
  by (relation "measure (\<lambda>(old, new, s). length s)") auto

text \<open>\<open>str(n)\<close> for a non-negative integer: its decimal digits.\<close>

definition digit_char :: "nat \<Rightarrow> char" where
  "digit_char d = ''0123456789'' ! d"

function str_of_nat :: "nat \<Rightarrow> string" where
  "str_of_nat n = (if n < 10 then [digit_char n]
                   else str_of_nat (n div 10) @ [digit_char (n mod 10)])"
  by pat_completeness auto
termination
  by (relation "measure id") auto

section \<open>Data model of the decoded messages\<close>

datatype error = KeyError | IndexError | UnboundLocalError | NotImplementedError

text \<open>
  A type description is a \<open>BasicTypeInfo\<close> or an \<open>ArrowTypeInfo\<close>; the constructor is
  the \<open>typehint\<close> field of the decoded object. Only an arrow type has \<open>resultType\<close> and
  \<open>paramSections\<close>; a parameter is the pair of its name and its type.
\<close>

datatype type_info =
    BasicTypeInfo (name: string) (fullName: string)
  | ArrowTypeInfo (name: string) (fullName: string) (resultType_of: type_info)
      (paramSections_of: "param_section list")
and param_section =
    ParamSection (isImplicit: bool) (params: "(string \<times> type_info) list")

fun typehint_of :: "type_info \<Rightarrow> string" where
  "typehint_of (BasicTypeInfo n f) = ''BasicTypeInfo''"
| "typehint_of (ArrowTypeInfo n f r ps) = ''ArrowTypeInfo''"

text \<open>\<open>typeInfo["paramSections"]\<close> and \<open>typeInfo["resultType"]\<close>: a basic type has no such key.\<close>

fun paramSections :: "type_info \<Rightarrow> error + param_section list" where
  "paramSections (BasicTypeInfo n f) = Inl KeyError"
| "paramSections (ArrowTypeInfo n f r ps) = Inr ps"

fun resultType :: "type_info \<Rightarrow> error + type_info" where
  "resultType (BasicTypeInfo n f) = Inl KeyError"
| "resultType (ArrowTypeInfo n f r ps) = Inr r"

section \<open>symbol\_format.py\<close>

definition is_basic_type :: "type_info \<Rightarrow> bool" where
  "is_basic_type completion \<longleftrightarrow> typehint_of completion = ''BasicTypeInfo''"

definition formatted_param_type :: "type_info \<Rightarrow> string" where
  "formatted_param_type ptype =
     (let pt_name = name ptype in
      if prefix ''<byname>'' pt_name
      then butlast (str_replace ''<byname>['' ''=> '' pt_name)
      else if prefix ''<repeated>'' pt_name
      then butlast (str_replace ''<repeated>['' '''' pt_name) @ ''*''
      else pt_name)"

definition concat_params :: "(string \<times> string) list \<Rightarrow> string" where
  "concat_params params_list =
     (let name_and_types = map (\<lambda>p. join '': '' [fst p, snd p]) params_list
      in join '', '' name_and_types)"

definition formatted_param_section :: "param_section \<Rightarrow> string" where
  "formatted_param_section section_arg =
     (let implicit = (if isImplicit section_arg then ''implicit '' else '''');
          s_params = map (\<lambda>p. (fst p, formatted_param_type (snd p))) (params section_arg)
      in ''('' @ implicit @ concat_params s_params @ '')'')"

definition formatted_message_params :: "type_info \<Rightarrow> error + string" where
  "formatted_message_params typeInfo =
     (case paramSections typeInfo of
        Inl e \<Rightarrow> Inl e
      | Inr sections \<Rightarrow> Inr (concat (map formatted_param_section sections)))"

definition formatted_type :: "type_info \<Rightarrow> error + string" where
  "formatted_type typeInfo =
     (if is_basic_type typeInfo then Inr (name typeInfo)
      else (case resultType typeInfo of Inl e \<Rightarrow> Inl e | Inr r \<Rightarrow> Inr (name r)))"

text \<open>The placeholder \<open>"${{{index}:{name}:{type}}}".format(...)\<close>.\<close>

definition placeholder :: "nat \<Rightarrow> string \<Rightarrow> string \<Rightarrow> string" where
  "placeholder index pname tpe =
     ''${'' @ str_of_nat index @ '':'' @ pname @ '':'' @ tpe @ ''}''"

text \<open>
  The inner loop of \<open>formatted_insertion_params\<close> over the parameters of one section: it
  carries the counter \<open>i\<close> and the list \<open>param_snippets\<close>.
\<close>

fun insertion_param_loop ::
  "(string \<times> type_info) list \<Rightarrow> nat \<Rightarrow> string list \<Rightarrow> nat \<times> string list" where
  "insertion_param_loop [] i param_snippets = (i, param_snippets)"
| "insertion_param_loop (param # rest) i param_snippets =
     (let pname = fst param;
          tpe = formatted_param_type (snd param)
      in insertion_param_loop rest (i + 1) (param_snippets @ [placeholder i pname tpe]))"

text \<open>The outer loop over the sections; the counter is handed from section to section.\<close>

fun insertion_section_loop ::
  "param_section list \<Rightarrow> nat \<Rightarrow> string list \<Rightarrow> string list" where
  "insertion_section_loop [] i section_snippets = section_snippets"
| "insertion_section_loop (param_section # rest) i section_snippets =
     (case insertion_param_loop (params param_section) i [] of
        (i', param_snippets) \<Rightarrow>
          insertion_section_loop rest i'
            (section_snippets @ [''('' @ join '', '' param_snippets @ '')'']))"

definition formatted_insertion_params :: "type_info \<Rightarrow> error + string" where
  "formatted_insertion_params typeInfo =
     (case paramSections typeInfo of
        Inl e \<Rightarrow> Inl e
      | Inr sections \<Rightarrow> Inr (concat (insertion_section_loop sections 1 [])))"

text \<open>
  The completion-menu line \<open>"{}\t{:^32.30} {:>10}".format(word, abbr, menu)\<close>: \<open>abbr\<close> is
  cut to 30 characters and centred in 32 columns (the left padding is the smaller half),
  \<open>menu\<close> is right-aligned in 10 columns.
\<close>

definition py_center :: "nat \<Rightarrow> string \<Rightarrow> string" where
  "py_center width s =
     (let pad = width - length s; lpad = pad div 2
      in replicate lpad CHR '' '' @ s @ replicate (pad - lpad) CHR '' '')"

definition py_rjust :: "nat \<Rightarrow> string \<Rightarrow> string" where
  "py_rjust width s = replicate (width - length s) CHR '' '' @ s"

text \<open>A completion: its \<open>name\<close> and, unless the server left it out, its \<open>typeInfo\<close>.\<close>

record completion =
  completion_name :: string
  typeInfo :: "type_info option"

definition completion_typeInfo :: "completion \<Rightarrow> error + type_info" where
  "completion_typeInfo completion =
     (case typeInfo completion of None \<Rightarrow> Inl KeyError | Some t \<Rightarrow> Inr t)"

definition formatted_completion_sig :: "completion \<Rightarrow> bool \<Rightarrow> error + string" where
  "formatted_completion_sig completion forInsertion =
     (let f_result = completion_name completion in
      case completion_typeInfo completion of
        Inl e \<Rightarrow> Inl e
      | Inr ti \<Rightarrow>
          if is_basic_type ti then Inr f_result
          else (case paramSections ti of
            Inl e \<Rightarrow> Inl e
          | Inr sections \<Rightarrow>
              if length sections = 0 then Inr f_result
              else if \<not> forInsertion
              then (case formatted_message_params ti of
                      Inl e \<Rightarrow> Inl e | Inr s \<Rightarrow> Inr (f_result @ s))
              else (case formatted_insertion_params ti of
                      Inl e \<Rightarrow> Inl e | Inr s \<Rightarrow> Inr (f_result @ s))))"

definition completion_to_suggest :: "completion \<Rightarrow> error + string \<times> string" where
  "completion_to_suggest completion =
     (let word = completion_name completion in
      case formatted_completion_sig completion False of
        Inl e \<Rightarrow> Inl e
      | Inr abbr \<Rightarrow>
          (case completion_typeInfo completion of
             Inl e \<Rightarrow> Inl e
           | Inr ti \<Rightarrow>
               (case formatted_type ti of
                  Inl e \<Rightarrow> Inl e
                | Inr menu \<Rightarrow>
                    (case formatted_completion_sig completion True of
                       Inl e \<Rightarrow> Inl e
                     | Inr sig \<Rightarrow>
                         Inr (word @ [CHR 0x09] @ py_center 32 (take 30 abbr)
                                @ '' '' @ py_rjust 10 menu,
                              sig)))))"

section \<open>protocol.py: messages, state and collaborators\<close>

type_synonym call_id = int

text \<open>
  A decoded payload is a dictionary; the keys the handlers below read are the fields of
  this record, \<open>None\<close> for a key that is absent. \<open>payload[k]\<close> raises \<open>KeyError\<close> on an
  absent key, \<open>payload.get(k)\<close> gives \<open>None\<close>. \<open>p_refactorType\<close> holds the \<open>typehint\<close> of the
  \<open>refactorType\<close> object, and each suggestion of \<open>symLists\<close> is given by its \<open>name\<close>.
\<close>

record payload =
  p_typehint :: "string option"
  p_version :: "string option"
  p_text :: "string option"
  p_symLists :: "string list list option"
  p_prefix :: "string option"
  p_completions :: "completion list option"
  p_refactorType :: "string option"
  p_diff :: "string option"
  p_procedureId :: "int option"

text \<open>The option bag of a call: a dictionary from option names to strings or booleans.\<close>

datatype opt_val = OStr string | OBool bool

type_synonym call_opts = "(string \<times> opt_val) list"

fun truthy :: "opt_val option \<Rightarrow> bool" where
  "truthy None = False"
| "truthy (Some (OStr s)) = (s \<noteq> [])"
| "truthy (Some (OBool b)) = b"

datatype level = DEBUG | INFO | WARNING | ERROR

datatype log_arg =
    AStr string
  | AInt int
  | APayload payload
  | ASuggestions "(string \<times> string) list"

text \<open>A log record: the level, the message template and the values to be put into it.\<close>

type_synonym log_record = "level \<times> string \<times> log_arg list"

datatype request = AddImportRefactorDesc "opt_val option" string

text \<open>
  The callbacks handed to \<open>sublime.set_timeout\<close>: the quick panel with the selection
  callback \<open>do_refactor\<close> (a closure over the call id and the import list), the two steps
  of the completion refresh, the browser and the file reload.
\<close>

datatype panel_callback = DoRefactor call_id "string list"

datatype callback =
    ShowQuickPanel "string list" panel_callback
  | Hack payload "string option"
  | Hack2
  | BrowseDoc string
  | ReloadFile string

type_synonym file_system = "string \<rightharpoonup> string"

record state =
  server_version :: string
  call_options :: "call_id \<rightharpoonup> call_opts"
  refactorings :: "int \<rightharpoonup> string"
  current_prefix :: "string option"
  suggestions :: "(string \<times> string) list"
  log :: "log_record list"
  status_messages :: "string list"
  error_messages :: "string list"
  timeouts :: "(callback \<times> nat) list"
  requests :: "request list"
  commands :: "string list"
  files :: file_system

text \<open>
  What the handlers use from modules that are not part of the sources at hand: the patch
  library (\<open>fromfile\<close> reads the diff file and gives a patch set, or a false value when the
  diff does not parse; \<open>apply\<close> writes the files and tells whether it succeeded),
  \<open>paths.root_as_str_from_abspath\<close>, the server's HTTP port, and the message templates
  \<open>gconfig['localhost']\<close> and \<open>feedback["handler_not_implemented"]\<close>, each given as the
  function its \<open>format\<close> call computes.
\<close>

record 'p collab =
  fromfile :: "file_system \<Rightarrow> string \<Rightarrow> error + 'p option"
  patch_apply :: "'p \<Rightarrow> nat \<Rightarrow> string \<Rightarrow> file_system \<Rightarrow> bool \<times> file_system"
  root_as_str_from_abspath :: "string \<Rightarrow> string"
  http_port :: string
  localhost_format :: "string \<Rightarrow> string \<Rightarrow> string"
  handler_not_implemented_format :: "string \<Rightarrow> string \<Rightarrow> string"

type_synonym result = "(error + unit) \<times> state"

type_synonym handler = "call_id \<Rightarrow> payload \<Rightarrow> state \<Rightarrow> result"

definition logger :: "level \<Rightarrow> string \<Rightarrow> log_arg list \<Rightarrow> state \<Rightarrow> state" where
  "logger lvl msg args st = st\<lparr>log := log st @ [(lvl, msg, args)]\<rparr>"

definition status_message :: "string \<Rightarrow> state \<Rightarrow> state" where
  "status_message msg st = st\<lparr>status_messages := status_messages st @ [msg]\<rparr>"

definition error_message :: "string \<Rightarrow> state \<Rightarrow> state" where
  "error_message msg st = st\<lparr>error_messages := error_messages st @ [msg]\<rparr>"

definition set_timeout :: "callback \<Rightarrow> nat \<Rightarrow> state \<Rightarrow> state" where
  "set_timeout cb delay st = st\<lparr>timeouts := timeouts st @ [(cb, delay)]\<rparr>"

section \<open>protocol.py: the handlers\<close>

definition handle_connection_info :: handler where
  "handle_connection_info call_id payload st =
     (let version = (case p_version payload of None \<Rightarrow> ''unknown'' | Some v \<Rightarrow> v);
          st1 = st\<lparr>server_version := version\<rparr>
      in (Inr (),
          logger INFO
            (''Connected to the ensime server '' @ server_version st1 @
             '' through websocket. Please wait while we get the analyzer and indexer ready. '' @
             ''Indexing files may take a while and consequently the context menu commands '' @
             ''may take longer to get enabled. You may check the server.log to see what's '' @
             ''currently indexing or if any error occured while indexing.'')
            [] st1))"

definition handle_java_notes :: handler where
  "handle_java_notes call_id payload st = (Inr (), st)"

definition handle_debug_vm_error :: handler where
  "handle_debug_vm_error call_id payload st = (Inl NotImplementedError, st)"

definition handle_package_info :: handler where
  "handle_package_info call_id payload st = (Inl NotImplementedError, st)"

text \<open>
  The subscription \<open>imports[choice]\<close>: a position from the front, or from the end when the
  index is negative; outside the list it raises \<open>IndexError\<close>.
\<close>

definition list_index :: "'a list \<Rightarrow> int \<Rightarrow> error + 'a" where
  "list_index xs i =
     (if 0 \<le> i \<and> nat i < length xs then Inr (xs ! nat i)
      else if i < 0 \<and> nat (- i) \<le> length xs then Inr (xs ! (length xs - nat (- i)))
      else Inl IndexError)"

text \<open>
  The selection callback of the import panel. \<open>self.call_options[call_id]\<close> is a
  subscription: it raises \<open>KeyError\<close> when the call has no entry.
\<close>

definition do_refactor :: "call_id \<Rightarrow> string list \<Rightarrow> int \<Rightarrow> state \<Rightarrow> result" where
  "do_refactor call_id imports choice st =
     (if choice > - 1 then
        (case call_options st call_id of
           None \<Rightarrow> (Inl KeyError, st)
         | Some opts \<Rightarrow>
             (let file_name = map_of opts ''file_name'' in
              case list_index imports choice of
                Inl e \<Rightarrow> (Inl e, st)
              | Inr imp \<Rightarrow>
                  (Inr (), st\<lparr>requests := requests st @ [AddImportRefactorDesc file_name imp]\<rparr>)))
      else (Inr (), st))"

text \<open>
  The two loops of \<open>handle_import_suggestions\<close> append the name of every suggestion of
  every list, with \<open>$\<close> replaced by a dot; \<open>sorted(set(imports))\<close> follows.
\<close>

definition handle_import_suggestions :: handler where
  "handle_import_suggestions call_id payload st =
     (case p_symLists payload of
        None \<Rightarrow> (Inl KeyError, st)
      | Some symLists \<Rightarrow>
          (let imports = concat (map (map (str_replace ''$'' ''.'')) symLists);
               imports = sorted_list_of_set (set imports)
           in if imports = []
              then (Inr (), error_message ''No import suggestions found.'' st)
              else (Inr (),
                    set_timeout (ShowQuickPanel imports (DoRefactor call_id imports)) 0 st)))"

definition handle_string_response :: "'p collab \<Rightarrow> handler" where
  "handle_string_response env call_id payload st =
     (case p_text payload of
        None \<Rightarrow> (Inl KeyError, st)
      | Some text \<Rightarrow>
          (let url = (if \<not> prefix ''http'' text
                      then localhost_format env (http_port env) text else text);
               options = call_options st call_id
           in if (case options of None \<Rightarrow> False
                  | Some opts \<Rightarrow> opts \<noteq> [] \<and> truthy (map_of opts ''browse''))
              then (Inr (),
                    (set_timeout (BrowseDoc url) 0 st)
                      \<lparr>call_options := (call_options st)(call_id := None)\<rparr>)
              else (Inr (), st)))"

text \<open>\<open>[completion_to_suggest(c) for c in completions]\<close>: the first failure ends the list.\<close>

fun map_suggest :: "completion list \<Rightarrow> error + (string \<times> string) list" where
  "map_suggest [] = Inr []"
| "map_suggest (c # cs) =
     (case completion_to_suggest c of
        Inl e \<Rightarrow> Inl e
      | Inr s \<Rightarrow> (case map_suggest cs of Inl e \<Rightarrow> Inl e | Inr ss \<Rightarrow> Inr (s # ss)))"

text \<open>
  The scheduled step \<open>_hack\<close> of the completion refresh; \<open>visible\<close> is what
  \<open>is_auto_complete_visible()\<close> answers when the step runs.
\<close>

definition hack :: "bool \<Rightarrow> payload \<Rightarrow> string option \<Rightarrow> state \<Rightarrow> result" where
  "hack visible payload pfx st =
     (if visible \<and> current_prefix st = pfx then
        (let st1 = st\<lparr>commands := commands st @ [''hide_auto_complete'']\<rparr> in
         case p_completions payload of
           None \<Rightarrow> (Inl KeyError, st1)
         | Some cs \<Rightarrow>
             (let completions = filter (\<lambda>c. typeInfo c \<noteq> None) cs in
              case map_suggest completions of
                Inl e \<Rightarrow> (Inl e, st1)
              | Inr sugg \<Rightarrow> (Inr (), set_timeout Hack2 1 (st1\<lparr>suggestions := sugg\<rparr>))))
      else (Inr (), st))"

definition handle_completion_info_list :: handler where
  "handle_completion_info_list call_id payload st =
     (let pfx = p_prefix payload in
      if current_prefix st \<noteq> None \<and> current_prefix st = pfx then
        (Inr (),
         set_timeout (Hack payload pfx) 0
           (logger DEBUG ''handle_completion_info_list: in async'' [] st))
      else
        (let st1 = st\<lparr>current_prefix := p_prefix payload\<rparr>;
             st2 = logger DEBUG ''handle_completion_info_list: in sync'' [] st1
         in case p_completions payload of
              None \<Rightarrow> (Inl KeyError, st2)
            | Some cs \<Rightarrow>
                (let completions = filter (\<lambda>c. typeInfo c \<noteq> None) cs in
                 case map_suggest completions of
                   Inl e \<Rightarrow> (Inl e, st2)
                 | Inr sugg \<Rightarrow>
                     (let st3 = st2\<lparr>suggestions := sugg\<rparr> in
                      (Inr (),
                       logger DEBUG ''handle_completion_info_list: {}''
                         [ASuggestions (suggestions st3)] st3)))))"

text \<open>
  \<open>apply_refactor\<close> binds the locals \<open>diff_file\<close> and \<open>patch_set\<close> only inside the first
  \<open>if\<close>; the statement after it reads \<open>patch_set\<close> in every case. \<open>refactor_locals\<close> is that
  first statement: \<open>None\<close> when the locals stay unbound, else their values.
\<close>

definition supported_refactorings :: "string list" where
  "supported_refactorings = [''AddImport'', ''OrganizeImports'', ''Rename'', ''InlineLocal'']"

definition refactor_locals ::
  "'p collab \<Rightarrow> payload \<Rightarrow> state \<Rightarrow> error + (string \<times> 'p option) option" where
  "refactor_locals env payload st =
     (case p_refactorType payload of
        None \<Rightarrow> Inl KeyError
      | Some rt \<Rightarrow>
          if rt \<in> set supported_refactorings then
            (case p_diff payload of
               None \<Rightarrow> Inl KeyError
             | Some diff_file \<Rightarrow>
                 (case fromfile env (files st) diff_file of
                    Inl e \<Rightarrow> Inl e
                  | Inr patch_set \<Rightarrow> Inr (Some (diff_file, patch_set))))
          else Inr None)"

text \<open>The target file: \<open>self.refactorings\<close> subscripted by \<open>payload['procedureId']\<close>.\<close>

definition refactoring_file :: "payload \<Rightarrow> state \<Rightarrow> error + string" where
  "refactoring_file payload st =
     (case p_procedureId payload of
        None \<Rightarrow> Inl KeyError
      | Some pid \<Rightarrow> (case refactorings st pid of None \<Rightarrow> Inl KeyError | Some f \<Rightarrow> Inr f))"

definition apply_refactor :: "'p collab \<Rightarrow> handler" where
  "apply_refactor env call_id payload st =
     (case refactor_locals env payload st of
        Inl e \<Rightarrow> (Inl e, st)
      | Inr None \<Rightarrow> (Inl UnboundLocalError, st)
      | Inr (Some (diff_file, None)) \<Rightarrow>
          (Inr (), logger WARNING (''Couldn't parse diff_file: '' @ diff_file) [] st)
      | Inr (Some (diff_file, Some patch_set)) \<Rightarrow>
          (case refactoring_file payload st of
             Inl e \<Rightarrow> (Inl e, st)
           | Inr target \<Rightarrow>
               (let st1 = logger DEBUG (''Refactoring get root from: '' @ target) [] st;
                    root = root_as_str_from_abspath env target;
                    st2 = logger DEBUG (''Refactoring set root: '' @ root) [] st1;
                    (res, fs) = patch_apply env patch_set 0 root (files st2);
                    st3 = st2\<lparr>files := fs\<rparr>
                in if res then
                     (Inr (),
                      status_message ''Refactoring succeeded''
                        (logger INFO (''Refactoring succeeded, patch file: '' @ diff_file) []
                          (set_timeout (ReloadFile target) 0 st3)))
                   else
                     (Inr (),
                      status_message (''Refactor failed: '' @ diff_file)
                        (logger ERROR (''Patch refactoring failed, patch file: '' @ diff_file) []
                          st3)))))"

section \<open>protocol.py: the dispatcher\<close>

text \<open>
  Modelled from the spec: the context manager \<open>catch\<close> of the module \<open>util\<close>, which is not
  among the sources. The dispatcher must not propagate a handler's "not implemented" signal
  but report it, and every other failure of a handler propagates: \<open>catch exc on_exc body\<close>
  runs \<open>body\<close>, turns the exception \<open>exc\<close> into a call of \<open>on_exc\<close> and a normal return, and
  lets any other exception through.
\<close>

definition catch ::
  "error \<Rightarrow> (error \<Rightarrow> state \<Rightarrow> state) \<Rightarrow> (state \<Rightarrow> result) \<Rightarrow> state \<Rightarrow> result" where
  "catch exc on_exc body st =
     (case body st of
        (Inl e, st') \<Rightarrow> if e = exc then (Inr (), on_exc e st') else (Inl e, st')
      | (Inr u, st') \<Rightarrow> (Inr u, st'))"

definition feature_not_supported :: "'p collab \<Rightarrow> string \<Rightarrow> error \<Rightarrow> state \<Rightarrow> state" where
  "feature_not_supported env typehint m st =
     (let msg = handler_not_implemented_format env;
          st1 = logger ERROR (msg typehint (server_version st)) [] st
      in status_message (msg typehint (server_version st1)) st1)"

definition handle_incoming_response ::
  "'p collab \<Rightarrow> (string \<rightharpoonup> handler) \<Rightarrow> call_id \<Rightarrow> payload \<Rightarrow> state \<Rightarrow> result" where
  "handle_incoming_response env handlers call_id payload st =
     (case p_typehint payload of
        None \<Rightarrow> (Inl KeyError, st)
      | Some typehint \<Rightarrow>
          (let st1 = logger DEBUG ''handle_incoming_response: in [typehint: %s, call ID: %s]''
                       [AStr typehint, AInt call_id] st;
               h = handlers typehint
           in case h of
                Some f \<Rightarrow>
                  catch NotImplementedError (feature_not_supported env typehint)
                    (f call_id payload) st1
              | None \<Rightarrow>
                  (Inr (),
                   logger WARNING ''Response has not been handled: %s'' [APayload payload] st1)))"

section \<open>Concrete inputs\<close>

text \<open>
  A payload with no key, the state of a fresh handler object (\<open>server_version\<close> is
  \<open>"unknown"\<close>, every store is empty), collaborators whose patch library rejects every diff,
  and the part of the table of \<open>register_responses_handlers\<close> whose handlers are embedded
  above.
\<close>

definition empty_payload :: payload where
  "empty_payload =
     \<lparr>p_typehint = None, p_version = None, p_text = None, p_symLists = None,
      p_prefix = None, p_completions = None, p_refactorType = None, p_diff = None,
      p_procedureId = None\<rparr>"

definition initial_state :: state where
  "initial_state =
     \<lparr>server_version = ''unknown'', call_options = Map.empty, refactorings = Map.empty,
      current_prefix = None, suggestions = [], log = [], status_messages = [],
      error_messages = [], timeouts = [], requests = [], commands = [],
      files = Map.empty\<rparr>"

definition example_collab :: "unit collab" where
  "example_collab =
     \<lparr>fromfile = (\<lambda>fs f. Inr None),
      patch_apply = (\<lambda>p n root fs. (False, fs)),
      root_as_str_from_abspath = (\<lambda>f. f),
      http_port = ''8080'',
      localhost_format = (\<lambda>port url. ''http://127.0.0.1:'' @ port @ ''/'' @ url),
      handler_not_implemented_format =
        (\<lambda>t v. ''The feature '' @ t @ '' is not supported by the current Ensime server version '' @ v)\<rparr>"

definition registered_handlers :: "'p collab \<Rightarrow> (string \<rightharpoonup> handler)" where
  "registered_handlers env =
     map_of
       [(''ConnectionInfo'', handle_connection_info),
        (''NewJavaNotesEvent'', handle_java_notes),
        (''StringResponse'', handle_string_response env),
        (''CompletionInfoList'', handle_completion_info_list),
        (''RefactorDiffEffect'', apply_refactor env),
        (''ImportSuggestions'', handle_import_suggestions)]"

text \<open>Three completions: one without \<open>typeInfo\<close>, a value member and a method.\<close>

definition completion_untyped :: completion where
  "completion_untyped = \<lparr>completion_name = ''broken'', typeInfo = None\<rparr>"

definition completion_field :: completion where
  "completion_field =
     \<lparr>completion_name = ''size'',
      typeInfo = Some (ArrowTypeInfo ''Int'' ''scala.Int'' (BasicTypeInfo ''Int'' ''scala.Int'') [])\<rparr>"

definition completion_method :: completion where
  "completion_method =
     \<lparr>completion_name = ''take'',
      typeInfo = Some (ArrowTypeInfo ''(n: Int) => List'' ''(n: Int) => List''
        (BasicTypeInfo ''List'' ''scala.List'')
        [ParamSection False [(''n'', BasicTypeInfo ''Int'' ''scala.Int'')] ])\<rparr>"

text \<open>A curried method type with sections of two and of three parameters.\<close>

definition curried_type :: type_info where
  "curried_type =
     ArrowTypeInfo ''f'' ''f'' (BasicTypeInfo ''Unit'' ''scala.Unit'')
       [ParamSection False
          [(''a'', BasicTypeInfo ''Int'' ''scala.Int''),
           (''b'', BasicTypeInfo ''<byname>[Int]'' ''scala.<byname>'')],
        ParamSection True
          [(''c'', BasicTypeInfo ''Int'' ''scala.Int''),
           (''d'', BasicTypeInfo ''String'' ''java.lang.String''),
           (''e'', BasicTypeInfo ''<repeated>[Int]'' ''scala.<repeated>'')] ]"

section \<open>Properties of the signature formatter\<close>

lemma str_replace_absent:
  "\<not> sublist (a # old) s \<Longrightarrow> str_replace (a # old) new s = s"
proof (induction s)
  case Nil
  show ?case by simp
next
  case (Cons c cs)
  have np: "\<not> prefix (a # old) (c # cs)"
    using Cons.prems by (auto simp: sublist_Cons_right)
  have "\<not> sublist (a # old) cs"
    using Cons.prems by (auto simp: sublist_Cons_right)
  with Cons.IH have ih: "str_replace (a # old) new cs = cs" by simp
  show ?case by (simp only: str_replace.simps if_not_P [OF np] ih)
qed

lemma str_replace_char:
  "str_replace [a] [b] s = map (\<lambda>c. if c = a then b else c) s"
  by (induction s) auto

text \<open>
  C8. \<open>formatted_param_type\<close> turns the name \<open><byname>[Int]\<close> into \<open>=> Int\<close> and the name
  \<open><repeated>[String]\<close> into \<open>String*\<close>; a name that starts with neither \<open><byname>\<close> nor
  \<open><repeated>\<close> is returned as it is.
\<close>

theorem formatted_param_type_wrappers:
  "formatted_param_type (BasicTypeInfo ''<byname>[Int]'' fn) = ''=> Int'' \<and>
   formatted_param_type (BasicTypeInfo ''<repeated>[String]'' fn) = ''String*'' \<and>
   (\<not> prefix ''<byname>'' (name ptype) \<and> \<not> prefix ''<repeated>'' (name ptype)
      \<longrightarrow> formatted_param_type ptype = name ptype)"
  by (simp add: formatted_param_type_def)

theorem formatted_param_type_wrappers_witness:
  "\<not> prefix ''<byname>'' (name (BasicTypeInfo ''Int'' ''scala.Int'')) \<and>
   \<not> prefix ''<repeated>'' (name (BasicTypeInfo ''Int'' ''scala.Int'')) \<and>
   formatted_param_type (BasicTypeInfo ''Int'' ''scala.Int'') = ''Int''"
proof -
  have h: "\<not> prefix ''<byname>'' (name (BasicTypeInfo ''Int'' ''scala.Int'')) \<and>
           \<not> prefix ''<repeated>'' (name (BasicTypeInfo ''Int'' ''scala.Int''))"
    by simp
  have "formatted_param_type (BasicTypeInfo ''Int'' ''scala.Int'')
          = name (BasicTypeInfo ''Int'' ''scala.Int'')"
    by (rule formatted_param_type_wrappers
          [where ptype = "BasicTypeInfo ''Int'' ''scala.Int''" and fn = "''x''",
            THEN conjunct2, THEN conjunct2, THEN mp, OF h])
  with h show ?thesis by simp
qed

text \<open>
  C10, as the code has it. A name that starts with \<open><byname>\<close> and does not contain
  \<open><byname>[\<close> loses its last character, so the result differs from the name. A name that
  starts with \<open><repeated>\<close> and does not contain \<open><repeated>[\<close> loses its last character
  and gets \<open>*\<close> appended; the result is the name itself exactly when the name ends in
  \<open>*\<close>.
\<close>

theorem formatted_param_type_unbracketed:
  "(prefix ''<byname>'' (name ptype) \<and> \<not> sublist ''<byname>['' (name ptype)
      \<longrightarrow> formatted_param_type ptype = butlast (name ptype) \<and>
          formatted_param_type ptype \<noteq> name ptype) \<and>
   (prefix ''<repeated>'' (name ptype) \<and> \<not> sublist ''<repeated>['' (name ptype)
      \<longrightarrow> formatted_param_type ptype = butlast (name ptype) @ ''*'' \<and>
          (formatted_param_type ptype = name ptype \<longleftrightarrow> last (name ptype) = CHR ''*''))"
proof -
  have r: "prefix ''<repeated>'' (name ptype) \<Longrightarrow> \<not> prefix ''<byname>'' (name ptype)"
    by (auto simp: prefix_def)
  have ne1: "prefix ''<byname>'' (name ptype) \<Longrightarrow> name ptype \<noteq> []"
    by auto
  have ne2: "prefix ''<repeated>'' (name ptype) \<Longrightarrow> name ptype \<noteq> []"
    by auto
  have b: "name ptype \<noteq> [] \<Longrightarrow> butlast (name ptype) \<noteq> name ptype"
    by (metis length_butlast diff_less length_greater_0_conv less_numeral_extra(1) nat_neq_iff)
  have l: "name ptype \<noteq> [] \<Longrightarrow>
      (butlast (name ptype) @ ''*'' = name ptype \<longleftrightarrow> last (name ptype) = CHR ''*'')"
    by (metis append_butlast_last_id last_snoc)
  show ?thesis
    using str_replace_absent [of "CHR ''<''" "''byname>[''" "name ptype" "''=> ''"]
          str_replace_absent [of "CHR ''<''" "''repeated>[''" "name ptype" "[]"]
          r ne1 ne2 b l
    by (simp add: formatted_param_type_def Let_def)
qed

theorem formatted_param_type_unbracketed_witness:
  "prefix ''<byname>'' (name (BasicTypeInfo ''<byname>Int'' ''x'')) \<and>
   \<not> sublist ''<byname>['' (name (BasicTypeInfo ''<byname>Int'' ''x'')) \<and>
   formatted_param_type (BasicTypeInfo ''<byname>Int'' ''x'') = ''<byname>In'' \<and>
   prefix ''<repeated>'' (name (BasicTypeInfo ''<repeated>Int'' ''x'')) \<and>
   \<not> sublist ''<repeated>['' (name (BasicTypeInfo ''<repeated>Int'' ''x'')) \<and>
   formatted_param_type (BasicTypeInfo ''<repeated>Int'' ''x'') = ''<repeated>In*''"
proof -
  have h1: "prefix ''<byname>'' (name (BasicTypeInfo ''<byname>Int'' ''x'')) \<and>
            \<not> sublist ''<byname>['' (name (BasicTypeInfo ''<byname>Int'' ''x''))"
    by (simp add: sublist_Cons_right)
  have h2: "prefix ''<repeated>'' (name (BasicTypeInfo ''<repeated>Int'' ''x'')) \<and>
            \<not> sublist ''<repeated>['' (name (BasicTypeInfo ''<repeated>Int'' ''x''))"
    by (simp add: sublist_Cons_right)
  have c1: "formatted_param_type (BasicTypeInfo ''<byname>Int'' ''x'')
              = butlast (name (BasicTypeInfo ''<byname>Int'' ''x''))"
    using formatted_param_type_unbracketed
            [where ptype = "BasicTypeInfo ''<byname>Int'' ''x''", THEN conjunct1, THEN mp, OF h1]
    by (rule conjunct1)
  have c2: "formatted_param_type (BasicTypeInfo ''<repeated>Int'' ''x'')
              = butlast (name (BasicTypeInfo ''<repeated>Int'' ''x'')) @ ''*''"
    using formatted_param_type_unbracketed
            [where ptype = "BasicTypeInfo ''<repeated>Int'' ''x''", THEN conjunct2, THEN mp, OF h2]
    by (rule conjunct1)
  from c1 have c1': "formatted_param_type (BasicTypeInfo ''<byname>Int'' ''x'') = ''<byname>In''"
    by simp
  from c2 have c2': "formatted_param_type (BasicTypeInfo ''<repeated>Int'' ''x'') = ''<repeated>In*''"
    by simp
  from h1 h2 c1' c2' show ?thesis by blast
qed

text \<open>
  C10 as stated fails: the name \<open><repeated>*\<close> starts with \<open><repeated>\<close>, does not
  contain \<open><repeated>[\<close>, and is returned unchanged.
\<close>

theorem formatted_param_type_repeated_star_counterexample:
  "prefix ''<repeated>'' (name (BasicTypeInfo ''<repeated>*'' ''x'')) \<and>
   \<not> sublist ''<repeated>['' (name (BasicTypeInfo ''<repeated>*'' ''x'')) \<and>
   formatted_param_type (BasicTypeInfo ''<repeated>*'' ''x'')
     = name (BasicTypeInfo ''<repeated>*'' ''x'')"
  by (simp add: formatted_param_type_def sublist_Cons_right)

lemma insertion_param_loop_eq:
  "insertion_param_loop ps i acc =
     (i + length ps,
      acc @ map2 (\<lambda>k p. placeholder k (fst p) (formatted_param_type (snd p)))
              [i..<i + length ps] ps)"
proof (induction ps arbitrary: i acc)
  case Nil
  show ?case by simp
next
  case (Cons p ps)
  have "[i..<i + Suc (length ps)] = i # [Suc i..<Suc i + length ps]"
    using upt_conv_Cons [of i "i + Suc (length ps)"] by simp
  then show ?case using Cons.IH [of "i + 1"] by (simp add: Let_def)
qed

lemma insertion_section_loop_eq:
  "\<exists>idx. map length idx = map (length \<circ> params) secs \<and>
         concat idx = [i..<i + sum_list (map (length \<circ> params) secs)] \<and>
         insertion_section_loop secs i acc =
           acc @ map2 (\<lambda>ps ks. ''('' @ join '', ''
                     (map2 (\<lambda>k p. placeholder k (fst p) (formatted_param_type (snd p)))
                        ks (params ps)) @ '')'') secs idx"
proof (induction secs arbitrary: i acc)
  case Nil
  show ?case by simp
next
  case (Cons s secs)
  let ?n = "length (params s)"
  let ?total = "sum_list (map (length \<circ> params) secs)"
  let ?group = "\<lambda>ps ks. ''('' @ join '', ''
                  (map2 (\<lambda>k p. placeholder k (fst p) (formatted_param_type (snd p)))
                     ks (params ps)) @ '')''"
  from Cons.IH [of "i + ?n" "acc @ [?group s [i..<i + ?n] ]"]
  obtain idx where idx: "map length idx = map (length \<circ> params) secs"
    "concat idx = [i + ?n..<i + ?n + ?total]"
    "insertion_section_loop secs (i + ?n) (acc @ [?group s [i..<i + ?n] ]) =
       (acc @ [?group s [i..<i + ?n] ]) @ map2 ?group secs idx"
    by blast
  have "concat ([i..<i + ?n] # idx) = [i..<i + sum_list (map (length \<circ> params) (s # secs))]"
    using idx(2) upt_add_eq_append [of i "i + ?n" ?total] by (simp add: add.assoc)
  moreover have "map length ([i..<i + ?n] # idx) = map (length \<circ> params) (s # secs)"
    using idx(1) by simp
  moreover have "insertion_section_loop (s # secs) i acc =
      acc @ map2 ?group (s # secs) ([i..<i + ?n] # idx)"
    using idx(3) by (simp add: insertion_param_loop_eq)
  ultimately show ?case by blast
qed

text \<open>
  C6. For an arrow type with the parameter sections \<open>secs\<close> the insertion snippet is the
  concatenation of one parenthesised group per section, in order, each holding the
  placeholders of that section joined by \<open>", "\<close>. The placeholder indices form one index
  list per section (\<open>idx\<close>, as long as the section has parameters), and read left to right
  across all sections they are exactly \<open>1, 2, ..., n\<close> for the total number \<open>n\<close> of
  parameters: strictly increasing, without repeats, never restarted at a section.
\<close>

theorem insertion_params_indices:
  "\<exists>idx. length idx = length secs \<and>
         map length idx = map (length \<circ> params) secs \<and>
         concat idx = [1..<Suc (sum_list (map (length \<circ> params) secs))] \<and>
         sorted_wrt (<) (concat idx) \<and> distinct (concat idx) \<and>
         formatted_insertion_params (ArrowTypeInfo n f r secs) =
           Inr (concat (map2 (\<lambda>ps ks. ''('' @ join '', ''
                     (map2 (\<lambda>k p. placeholder k (fst p) (formatted_param_type (snd p)))
                        ks (params ps)) @ '')'') secs idx))"
proof -
  from insertion_section_loop_eq [of secs 1 "[]"]
  obtain idx where idx: "map length idx = map (length \<circ> params) secs"
    "concat idx = [1..<1 + sum_list (map (length \<circ> params) secs)]"
    "insertion_section_loop secs 1 [] =
       [] @ map2 (\<lambda>ps ks. ''('' @ join '', ''
                     (map2 (\<lambda>k p. placeholder k (fst p) (formatted_param_type (snd p)))
                        ks (params ps)) @ '')'') secs idx"
    by blast
  from idx(1) have len: "length idx = length secs"
    by (metis length_map)
  from idx(2) have c: "concat idx = [1..<Suc (sum_list (map (length \<circ> params) secs))]"
    by simp
  have s: "sorted_wrt (<) (concat idx)" "distinct (concat idx)"
    by (simp_all only: c sorted_wrt_upt distinct_upt)
  have "formatted_insertion_params (ArrowTypeInfo n f r secs) =
           Inr (concat (map2 (\<lambda>ps ks. ''('' @ join '', ''
                     (map2 (\<lambda>k p. placeholder k (fst p) (formatted_param_type (snd p)))
                        ks (params ps)) @ '')'') secs idx))"
    using idx(3) by (simp add: formatted_insertion_params_def)
  with len idx(1) c s show ?thesis by blast
qed

theorem insertion_params_indices_witness:
  "\<exists>idx. map length idx = [2, 3] \<and> concat idx = [1, 2, 3, 4, 5] \<and>
         formatted_insertion_params curried_type =
           Inr (concat (map2 (\<lambda>ps ks. ''('' @ join '', ''
                     (map2 (\<lambda>k p. placeholder k (fst p) (formatted_param_type (snd p)))
                        ks (params ps)) @ '')'') (projr (paramSections curried_type)) idx))"
proof -
  let ?secs = "projr (paramSections curried_type)"
  have ct: "curried_type =
      ArrowTypeInfo ''f'' ''f'' (BasicTypeInfo ''Unit'' ''scala.Unit'') ?secs"
    by (simp add: curried_type_def)
  have l: "map (length \<circ> params) ?secs = [2, 3]"
    by (simp add: curried_type_def)
  have u: "[1..<Suc (sum_list [2, 3])] = [1, 2, 3, 4, 5]"
    by (simp add: upt_rec)
  from insertion_params_indices
         [of ?secs "''f''" "''f''" "BasicTypeInfo ''Unit'' ''scala.Unit''"]
  obtain idx where "map length idx = map (length \<circ> params) ?secs"
    "concat idx = [1..<Suc (sum_list (map (length \<circ> params) ?secs))]"
    "formatted_insertion_params
       (ArrowTypeInfo ''f'' ''f'' (BasicTypeInfo ''Unit'' ''scala.Unit'') ?secs) =
           Inr (concat (map2 (\<lambda>ps ks. ''('' @ join '', ''
                     (map2 (\<lambda>k p. placeholder k (fst p) (formatted_param_type (snd p)))
                        ks (params ps)) @ '')'') ?secs idx))"
    by blast
  then have "map length idx = [2, 3]" "concat idx = [1, 2, 3, 4, 5]"
    "formatted_insertion_params curried_type =
           Inr (concat (map2 (\<lambda>ps ks. ''('' @ join '', ''
                     (map2 (\<lambda>k p. placeholder k (fst p) (formatted_param_type (snd p)))
                        ks (params ps)) @ '')'') ?secs idx))"
    by (simp_all only: l u ct [symmetric])
  then show ?thesis by (intro exI [of _ idx] conjI)
qed

text \<open>The sections of sizes two and three get the indices 1, 2 and 3, 4, 5.\<close>

lemma insertion_params_curried:
  "formatted_insertion_params curried_type =
     Inr ''(${1:a:Int}, ${2:b:=> Int})(${3:c:Int}, ${4:d:String}, ${5:e:Int*})''"
  by (simp add: formatted_insertion_params_def curried_type_def placeholder_def
      formatted_param_type_def digit_char_def)

section \<open>Properties of the handlers\<close>

text \<open>
  C1. The refactor tag \<open>ExtractMethod\<close> is not among the supported ones: \<open>apply_refactor\<close>
  leaves the state as it is, the files included, but it does not return normally. It
  reads the local \<open>patch_set\<close>, which was never bound, and raises \<open>UnboundLocalError\<close>.
\<close>

theorem apply_refactor_unsupported_tag_raises:
  "apply_refactor example_collab 1
     (empty_payload\<lparr>p_typehint := Some ''RefactorDiffEffect'',
        p_refactorType := Some ''ExtractMethod'', p_diff := Some ''/tmp/refactor.diff'',
        p_procedureId := Some 7\<rparr>) initial_state
   = (Inl UnboundLocalError, initial_state)"
  by (simp add: apply_refactor_def refactor_locals_def empty_payload_def
      supported_refactorings_def)

text \<open>The same holds for every tag outside the supported list, in every state.\<close>

lemma apply_refactor_unsupported:
  "p_refactorType payload = Some rt \<Longrightarrow> rt \<notin> set supported_refactorings \<Longrightarrow>
   apply_refactor env call_id payload st = (Inl UnboundLocalError, st)"
  by (simp add: apply_refactor_def refactor_locals_def)

text \<open>
  C9. When the tag is supported and the patch library gives no usable patch set for the
  diff, \<open>apply_refactor\<close> returns normally; the only change of the state is one warning in
  the log that names the diff file. The files are untouched, nothing is scheduled, and the
  patch is never applied.
\<close>

theorem apply_refactor_unparseable:
  assumes "p_refactorType payload = Some rt" and "rt \<in> set supported_refactorings"
    and "p_diff payload = Some diff_file" and "fromfile env (files st) diff_file = Inr None"
  shows "apply_refactor env call_id payload st =
           (Inr (), st\<lparr>log := log st @
              [(WARNING, ''Couldn't parse diff_file: '' @ diff_file, [])]\<rparr>)
         \<and> files (snd (apply_refactor env call_id payload st)) = files st
         \<and> timeouts (snd (apply_refactor env call_id payload st)) = timeouts st"
  using assms by (simp add: apply_refactor_def refactor_locals_def logger_def)

theorem apply_refactor_unparseable_witness:
  "apply_refactor example_collab 3
     (empty_payload\<lparr>p_refactorType := Some ''Rename'', p_diff := Some ''/tmp/refactor.diff''\<rparr>)
     initial_state =
     (Inr (), initial_state\<lparr>log :=
        [(WARNING, ''Couldn't parse diff_file: /tmp/refactor.diff'', [])]\<rparr>)
   \<and> files (snd (apply_refactor example_collab 3
     (empty_payload\<lparr>p_refactorType := Some ''Rename'', p_diff := Some ''/tmp/refactor.diff''\<rparr>)
     initial_state)) = files initial_state"
proof -
  let ?p = "empty_payload\<lparr>p_refactorType := Some ''Rename'', p_diff := Some ''/tmp/refactor.diff''\<rparr>"
  have h1: "p_refactorType ?p = Some ''Rename''" by (simp add: empty_payload_def)
  have h2: "''Rename'' \<in> set supported_refactorings" by (simp add: supported_refactorings_def)
  have h3: "p_diff ?p = Some ''/tmp/refactor.diff''" by (simp add: empty_payload_def)
  have h4: "fromfile example_collab (files initial_state) ''/tmp/refactor.diff'' = Inr None"
    by (simp add: example_collab_def)
  note th = apply_refactor_unparseable [OF h1 h2 h3 h4, of 3]
  have l: "log initial_state = []" by (simp add: initial_state_def)
  from th show ?thesis by (simp add: l)
qed

text \<open>
  C2, as the code has it. The names of all suggestions of all lists have every \<open>$\<close>
  replaced by a dot; the list \<open>imports\<close> holds each resulting name once, in ascending
  lexicographic order. If it is empty the handler reports "No import suggestions found."
  and shows nothing; otherwise it schedules the quick panel with exactly this list.
\<close>

theorem import_suggestions_presented:
  "p_symLists payload = Some symLists \<longrightarrow>
     (\<exists>imports. sorted imports \<and> distinct imports \<and>
        set imports =
          map (\<lambda>c. if c = CHR ''$'' then CHR ''.'' else c) ` set (concat symLists) \<and>
        handle_import_suggestions call_id payload st =
          (if imports = [] then (Inr (), error_message ''No import suggestions found.'' st)
           else (Inr (),
                 set_timeout (ShowQuickPanel imports (DoRefactor call_id imports)) 0 st)))"
proof
  assume a: "p_symLists payload = Some symLists"
  let ?names = "concat (map (map (str_replace ''$'' ''.'')) symLists)"
  let ?imports = "sorted_list_of_set (set ?names)"
  have "set ?names = map (\<lambda>c. if c = CHR ''$'' then CHR ''.'' else c) ` set (concat symLists)"
    by (auto simp: str_replace_char)
  then have "set ?imports =
      map (\<lambda>c. if c = CHR ''$'' then CHR ''.'' else c) ` set (concat symLists)"
    by simp
  moreover have "sorted ?imports" "distinct ?imports" by simp_all
  moreover have "handle_import_suggestions call_id payload st =
          (if ?imports = [] then (Inr (), error_message ''No import suggestions found.'' st)
           else (Inr (),
                 set_timeout (ShowQuickPanel ?imports (DoRefactor call_id ?imports)) 0 st))"
    using a by (simp add: handle_import_suggestions_def Let_def)
  ultimately show "\<exists>imports. sorted imports \<and> distinct imports \<and>
        set imports =
          map (\<lambda>c. if c = CHR ''$'' then CHR ''.'' else c) ` set (concat symLists) \<and>
        handle_import_suggestions call_id payload st =
          (if imports = [] then (Inr (), error_message ''No import suggestions found.'' st)
           else (Inr (),
                 set_timeout (ShowQuickPanel imports (DoRefactor call_id imports)) 0 st))"
    by blast
qed

theorem import_suggestions_presented_witness:
  "\<exists>imports. sorted imports \<and> distinct imports \<and>
      set imports = {''java.util.List.'', ''scala.util.Random.''} \<and>
      handle_import_suggestions 1
        (empty_payload\<lparr>p_symLists :=
           Some [ [''scala.util.Random$'', ''scala.util.Random$'', ''java.util.List$''] ]\<rparr>)
        initial_state =
        (if imports = []
         then (Inr (), error_message ''No import suggestions found.'' initial_state)
         else (Inr (),
               set_timeout (ShowQuickPanel imports (DoRefactor 1 imports)) 0 initial_state))"
proof -
  let ?p = "empty_payload\<lparr>p_symLists :=
           Some [ [''scala.util.Random$'', ''scala.util.Random$'', ''java.util.List$''] ]\<rparr>"
  have h: "p_symLists ?p =
      Some [ [''scala.util.Random$'', ''scala.util.Random$'', ''java.util.List$''] ]"
    by (simp add: empty_payload_def)
  from import_suggestions_presented [THEN mp, OF h, of 1 initial_state]
  obtain xs where i: "sorted xs" "distinct xs"
    "set xs = map (\<lambda>c. if c = CHR ''$'' then CHR ''.'' else c) `
       set (concat [ [''scala.util.Random$'', ''scala.util.Random$'', ''java.util.List$''] ])"
    "handle_import_suggestions 1 ?p initial_state =
        (if xs = []
         then (Inr (), error_message ''No import suggestions found.'' initial_state)
         else (Inr (),
               set_timeout (ShowQuickPanel xs (DoRefactor 1 xs)) 0 initial_state))"
    by blast
  from i(3) have "set xs = {''java.util.List.'', ''scala.util.Random.''}"
    by auto
  with i(1,2,4) show ?thesis by blast
qed

text \<open>
  C2 as stated fails on its own example: for the names \<open>scala.util.Random$\<close>,
  \<open>scala.util.Random$\<close>, \<open>java.util.List$\<close> the panel shows \<open>java.util.List.\<close> and
  \<open>scala.util.Random.\<close>, each with the dot that replaced the \<open>$\<close>.
\<close>

theorem import_suggestions_example_counterexample:
  "snd (handle_import_suggestions 1
     (empty_payload\<lparr>p_symLists :=
        Some [ [''scala.util.Random$'', ''scala.util.Random$'', ''java.util.List$''] ]\<rparr>)
     initial_state)
   = set_timeout (ShowQuickPanel [''java.util.List.'', ''scala.util.Random.'']
        (DoRefactor 1 [''java.util.List.'', ''scala.util.Random.''])) 0 initial_state
   \<and> [''java.util.List.'', ''scala.util.Random.''] \<noteq> [''java.util.List'', ''scala.util.Random'']"
  by (simp add: handle_import_suggestions_def empty_payload_def
      sorted_list_of_set_sort_remdups Let_def)

text \<open>
  C3. With no entry for the call in \<open>call_options\<close>, the selection callback of the import
  panel raises \<open>KeyError\<close> on a valid choice, while \<open>handle_string_response\<close> takes the
  missing entry as "no options" and returns.
\<close>

theorem do_refactor_missing_options_raises:
  "do_refactor 1 [''scala.util.Random.''] 0 initial_state = (Inl KeyError, initial_state) \<and>
   handle_string_response example_collab 1
     (empty_payload\<lparr>p_text := Some ''http://localhost/doc''\<rparr>) initial_state
     = (Inr (), initial_state)"
  by (simp add: do_refactor_def initial_state_def handle_string_response_def
      empty_payload_def)

lemma handle_string_response_no_options:
  "call_options st call_id = None \<Longrightarrow> p_text payload = Some text \<Longrightarrow>
   handle_string_response env call_id payload st = (Inr (), st)"
  by (simp add: handle_string_response_def)

lemma do_refactor_no_options:
  "call_options st call_id = None \<Longrightarrow> choice > - 1 \<Longrightarrow>
   do_refactor call_id imports choice st = (Inl KeyError, st)"
  by (simp add: do_refactor_def)

lemma completion_to_suggest_typed:
  assumes "typeInfo c = Some ti"
  shows "\<exists>s. completion_to_suggest c = Inr s"
proof (cases ti)
  case (BasicTypeInfo n f)
  with assms show ?thesis
    by (simp add: completion_to_suggest_def formatted_completion_sig_def completion_typeInfo_def
        is_basic_type_def formatted_type_def)
next
  case (ArrowTypeInfo n f r secs)
  with assms show ?thesis
    by (simp add: completion_to_suggest_def formatted_completion_sig_def completion_typeInfo_def
        is_basic_type_def formatted_type_def formatted_message_params_def
        formatted_insertion_params_def Let_def)
qed

lemma map_suggest_typed:
  "\<forall>c \<in> set cs. typeInfo c \<noteq> None \<Longrightarrow>
   \<exists>ss. map_suggest cs = Inr ss \<and> map Inr ss = map completion_to_suggest cs"
proof (induction cs)
  case Nil
  show ?case by simp
next
  case (Cons c cs)
  then obtain ti where "typeInfo c = Some ti" by auto
  then obtain s where s: "completion_to_suggest c = Inr s"
    using completion_to_suggest_typed by blast
  from Cons obtain ss where "map_suggest cs = Inr ss" "map Inr ss = map completion_to_suggest cs"
    by auto
  with s show ?case by simp
qed

lemma field_snippet:
  assumes "typeInfo c = Some ti" and "is_basic_type ti \<or> paramSections ti = Inr []"
  shows "\<exists>disp. completion_to_suggest c = Inr (disp, completion_name c)"
proof (cases ti)
  case (BasicTypeInfo n f)
  with assms show ?thesis
    by (simp add: completion_to_suggest_def formatted_completion_sig_def completion_typeInfo_def
        is_basic_type_def formatted_type_def)
next
  case (ArrowTypeInfo n f r secs)
  with assms show ?thesis
    by (simp add: completion_to_suggest_def formatted_completion_sig_def completion_typeInfo_def
        is_basic_type_def formatted_type_def)
qed

text \<open>
  C7. Let the payload carry the completions \<open>cs\<close>. On the path that stores the response
  at once (the response's prefix is not the one being tracked) the handler returns
  normally and the stored suggestions are the suggestions of exactly the entries of \<open>cs\<close>
  that have a \<open>typeInfo\<close>, in order; the scheduled refresh step on the other path, when
  its guard holds, stores the same list. An entry whose type is basic or has no parameter
  section is turned into a suggestion whose inserted snippet is its name.
\<close>

theorem completion_filtering:
  assumes "p_completions payload = Some cs"
  shows "(\<not> (current_prefix st \<noteq> None \<and> current_prefix st = p_prefix payload) \<longrightarrow>
           (\<exists>st'. handle_completion_info_list call_id payload st = (Inr (), st') \<and>
                  map Inr (suggestions st') =
                    map completion_to_suggest (filter (\<lambda>c. typeInfo c \<noteq> None) cs)))
       \<and> (visible \<and> current_prefix st = pfx \<longrightarrow>
           (\<exists>st'. hack visible payload pfx st = (Inr (), st') \<and>
                  map Inr (suggestions st') =
                    map completion_to_suggest (filter (\<lambda>c. typeInfo c \<noteq> None) cs)))
       \<and> (c \<in> set cs \<and> typeInfo c = Some ti \<and>
            (is_basic_type ti \<or> paramSections ti = Inr [])
           \<longrightarrow> (\<exists>disp. completion_to_suggest c = Inr (disp, completion_name c)))"
proof -
  obtain ss where ss: "map_suggest (filter (\<lambda>c. typeInfo c \<noteq> None) cs) = Inr ss"
    "map Inr ss = map completion_to_suggest (filter (\<lambda>c. typeInfo c \<noteq> None) cs)"
    using map_suggest_typed [of "filter (\<lambda>c. typeInfo c \<noteq> None) cs"] by auto
  have sync: "\<not> (current_prefix st \<noteq> None \<and> current_prefix st = p_prefix payload) \<longrightarrow>
           (\<exists>st'. handle_completion_info_list call_id payload st = (Inr (), st') \<and>
                  map Inr (suggestions st') =
                    map completion_to_suggest (filter (\<lambda>c. typeInfo c \<noteq> None) cs))"
    using assms ss by (simp add: handle_completion_info_list_def Let_def logger_def)
  have async: "visible \<and> current_prefix st = pfx \<longrightarrow>
           (\<exists>st'. hack visible payload pfx st = (Inr (), st') \<and>
                  map Inr (suggestions st') =
                    map completion_to_suggest (filter (\<lambda>c. typeInfo c \<noteq> None) cs))"
    using assms ss by (simp add: hack_def Let_def set_timeout_def)
  have field: "c \<in> set cs \<and> typeInfo c = Some ti \<and>
            (is_basic_type ti \<or> paramSections ti = Inr [])
           \<longrightarrow> (\<exists>disp. completion_to_suggest c = Inr (disp, completion_name c))"
    using field_snippet by blast
  from sync async field show ?thesis by blast
qed

theorem completion_filtering_witness:
  "filter (\<lambda>c. typeInfo c \<noteq> None) [completion_untyped, completion_field, completion_method]
     = [completion_field, completion_method]
   \<and> (\<exists>st'. handle_completion_info_list 1
          (empty_payload\<lparr>p_prefix := Some ''ta'',
             p_completions := Some [completion_untyped, completion_field, completion_method]\<rparr>)
          initial_state = (Inr (), st') \<and>
         map Inr (suggestions st') =
           map completion_to_suggest [completion_field, completion_method])
   \<and> (\<exists>st'. hack True
          (empty_payload\<lparr>p_prefix := Some ''ta'',
             p_completions := Some [completion_untyped, completion_field, completion_method]\<rparr>)
          None initial_state = (Inr (), st') \<and>
         map Inr (suggestions st') =
           map completion_to_suggest [completion_field, completion_method])
   \<and> (\<exists>disp. completion_to_suggest completion_field = Inr (disp, ''size''))"
proof -
  let ?cs = "[completion_untyped, completion_field, completion_method]"
  let ?p = "empty_payload\<lparr>p_prefix := Some ''ta'', p_completions := Some ?cs\<rparr>"
  let ?ti = "ArrowTypeInfo ''Int'' ''scala.Int'' (BasicTypeInfo ''Int'' ''scala.Int'') []"
  have a: "p_completions ?p = Some ?cs" by (simp add: empty_payload_def)
  have s: "\<not> (current_prefix initial_state \<noteq> None \<and>
              current_prefix initial_state = p_prefix ?p)"
    by (simp add: initial_state_def)
  have v: "True \<and> current_prefix initial_state = None"
    by (simp add: initial_state_def)
  have f: "completion_field \<in> set ?cs \<and> typeInfo completion_field = Some ?ti \<and>
           (is_basic_type ?ti \<or> paramSections ?ti = Inr [])"
    by (simp add: completion_field_def)
  have flt: "filter (\<lambda>c. typeInfo c \<noteq> None) ?cs = [completion_field, completion_method]"
    by (simp add: completion_untyped_def completion_field_def completion_method_def)
  note th = completion_filtering [where payload = ?p and cs = ?cs and st = initial_state
      and call_id = 1 and visible = True and pfx = None and c = completion_field
      and ti = ?ti, OF a]
  have n: "completion_name completion_field = ''size''" by (simp add: completion_field_def)
  from th [THEN conjunct1, THEN mp, OF s]
  have c1: "\<exists>st'. handle_completion_info_list 1 ?p initial_state = (Inr (), st') \<and>
         map Inr (suggestions st') =
           map completion_to_suggest [completion_field, completion_method]"
    by (simp only: flt)
  from th [THEN conjunct2, THEN conjunct1, THEN mp, OF v]
  have c2: "\<exists>st'. hack True ?p None initial_state = (Inr (), st') \<and>
         map Inr (suggestions st') =
           map completion_to_suggest [completion_field, completion_method]"
    by (simp only: flt)
  from th [THEN conjunct2, THEN conjunct2, THEN mp, OF f]
  have c3: "\<exists>disp. completion_to_suggest completion_field = Inr (disp, ''size'')"
    by (simp only: n)
  from flt c1 c2 c3 show ?thesis by blast
qed

text \<open>What the two typed completions become: the value member inserts its bare name.\<close>

lemma completion_to_suggest_examples:
  "completion_to_suggest completion_field =
     Inr (''size'' @ [CHR 0x09] @ replicate 14 CHR '' '' @ ''size'' @ replicate 14 CHR '' ''
            @ '' '' @ replicate 7 CHR '' '' @ ''Int'',
          ''size'')"
  "completion_to_suggest completion_method =
     Inr (''take'' @ [CHR 0x09] @ replicate 10 CHR '' '' @ ''take(n: Int)'' @ replicate 10 CHR '' ''
            @ '' '' @ replicate 6 CHR '' '' @ ''List'',
          ''take(${1:n:Int})'')"
  by (simp_all add: completion_to_suggest_def formatted_completion_sig_def
      completion_typeInfo_def is_basic_type_def formatted_type_def formatted_message_params_def
      formatted_insertion_params_def formatted_param_section_def concat_params_def
      formatted_param_type_def placeholder_def digit_char_def py_center_def py_rjust_def
      completion_field_def completion_method_def Let_def)

section \<open>Properties of the dispatcher\<close>

text \<open>
  C4. A payload whose tag has no handler in the table is dispatched without an
  exception; the state changes in the log only, by the debug record of the dispatch and
  the warning that the response was not handled, so no status or error message reaches
  the user. A later dispatch of a registered tag runs the registered handler on that
  state and returns what the handler returns.
\<close>

theorem dispatch_unregistered_tag:
  assumes "p_typehint payload = Some t" and "handlers t = None"
  shows "handle_incoming_response env handlers call_id payload st =
           (Inr (), st\<lparr>log := log st @
              [(DEBUG, ''handle_incoming_response: in [typehint: %s, call ID: %s]'',
                  [AStr t, AInt call_id]),
               (WARNING, ''Response has not been handled: %s'', [APayload payload])]\<rparr>)
         \<and> (p_typehint next_payload = Some next_tag \<and> handlers next_tag = Some h \<and>
              h next_id next_payload
                (logger DEBUG ''handle_incoming_response: in [typehint: %s, call ID: %s]''
                   [AStr next_tag, AInt next_id]
                   (snd (handle_incoming_response env handlers call_id payload st)))
                = (r, st_after) \<and>
              r \<noteq> Inl NotImplementedError
             \<longrightarrow> handle_incoming_response env handlers next_id next_payload
                   (snd (handle_incoming_response env handlers call_id payload st))
                   = (r, st_after))"
proof
  show "handle_incoming_response env handlers call_id payload st =
           (Inr (), st\<lparr>log := log st @
              [(DEBUG, ''handle_incoming_response: in [typehint: %s, call ID: %s]'',
                  [AStr t, AInt call_id]),
               (WARNING, ''Response has not been handled: %s'', [APayload payload])]\<rparr>)"
    using assms by (simp add: handle_incoming_response_def logger_def)
next
  show "p_typehint next_payload = Some next_tag \<and> handlers next_tag = Some h \<and>
              h next_id next_payload
                (logger DEBUG ''handle_incoming_response: in [typehint: %s, call ID: %s]''
                   [AStr next_tag, AInt next_id]
                   (snd (handle_incoming_response env handlers call_id payload st)))
                = (r, st_after) \<and>
              r \<noteq> Inl NotImplementedError
             \<longrightarrow> handle_incoming_response env handlers next_id next_payload
                   (snd (handle_incoming_response env handlers call_id payload st))
                   = (r, st_after)"
    by (cases r) (auto simp: handle_incoming_response_def catch_def)
qed

theorem dispatch_unregistered_tag_witness:
  "handle_incoming_response example_collab (registered_handlers example_collab) 5
      (empty_payload\<lparr>p_typehint := Some ''FutureEvent''\<rparr>) initial_state =
     (Inr (), initial_state\<lparr>log :=
        [(DEBUG, ''handle_incoming_response: in [typehint: %s, call ID: %s]'',
            [AStr ''FutureEvent'', AInt 5]),
         (WARNING, ''Response has not been handled: %s'',
            [APayload (empty_payload\<lparr>p_typehint := Some ''FutureEvent''\<rparr>)])]\<rparr>)
   \<and> server_version (snd (handle_incoming_response example_collab
        (registered_handlers example_collab) 6
        (empty_payload\<lparr>p_typehint := Some ''ConnectionInfo'', p_version := Some ''2.0''\<rparr>)
        (snd (handle_incoming_response example_collab (registered_handlers example_collab) 5
           (empty_payload\<lparr>p_typehint := Some ''FutureEvent''\<rparr>) initial_state)))) = ''2.0''"
proof -
  let ?p = "empty_payload\<lparr>p_typehint := Some ''FutureEvent''\<rparr>"
  let ?p2 = "empty_payload\<lparr>p_typehint := Some ''ConnectionInfo'', p_version := Some ''2.0''\<rparr>"
  let ?H = "registered_handlers example_collab"
  let ?st' = "snd (handle_incoming_response example_collab ?H 5 ?p initial_state)"
  let ?st1 = "logger DEBUG ''handle_incoming_response: in [typehint: %s, call ID: %s]''
                   [AStr ''ConnectionInfo'', AInt 6] ?st'"
  have t: "p_typehint ?p = Some ''FutureEvent''" by (simp add: empty_payload_def)
  have n: "?H ''FutureEvent'' = None" by (simp add: registered_handlers_def)
  have t2: "p_typehint ?p2 = Some ''ConnectionInfo''" by (simp add: empty_payload_def)
  have h2: "?H ''ConnectionInfo'' = Some handle_connection_info"
    by (simp add: registered_handlers_def)
  have r: "handle_connection_info 6 ?p2 ?st1 = (Inr (), snd (handle_connection_info 6 ?p2 ?st1))"
    by (simp add: handle_connection_info_def Let_def)
  note th = dispatch_unregistered_tag [where payload = ?p and t = "''FutureEvent''"
      and handlers = ?H and env = example_collab and call_id = 5 and st = initial_state
      and next_payload = ?p2 and next_tag = "''ConnectionInfo''"
      and h = handle_connection_info and next_id = 6 and r = "Inr ()"
      and st_after = "snd (handle_connection_info 6 ?p2 ?st1)", OF t n]
  from th have a: "handle_incoming_response example_collab ?H 5 ?p initial_state =
     (Inr (), initial_state\<lparr>log := log initial_state @
        [(DEBUG, ''handle_incoming_response: in [typehint: %s, call ID: %s]'',
            [AStr ''FutureEvent'', AInt 5]),
         (WARNING, ''Response has not been handled: %s'', [APayload ?p])]\<rparr>)"
    by (rule conjunct1)
  have b: "handle_incoming_response example_collab ?H 6 ?p2 ?st' =
     (Inr (), snd (handle_connection_info 6 ?p2 ?st1))"
    by (rule th [THEN conjunct2, THEN mp]) (intro conjI t2 h2 r, simp)
  have c: "server_version (snd (handle_connection_info 6 ?p2 ?st1)) = ''2.0''"
    by (simp add: handle_connection_info_def Let_def logger_def empty_payload_def)
  from a have a': "handle_incoming_response example_collab ?H 5 ?p initial_state =
     (Inr (), initial_state\<lparr>log :=
        [(DEBUG, ''handle_incoming_response: in [typehint: %s, call ID: %s]'',
            [AStr ''FutureEvent'', AInt 5]),
         (WARNING, ''Response has not been handled: %s'', [APayload ?p])]\<rparr>)"
    by (simp add: initial_state_def)
  show ?thesis using a' b c by simp
qed

text \<open>
  C5. Let the handler registered for the tag raise the exception \<open>e\<close>, leaving the state
  \<open>st_h\<close>. If \<open>e\<close> is \<open>NotImplementedError\<close> the dispatch returns normally, having logged
  as an error and shown as status message the template \<open>handler_not_implemented\<close> filled
  with the tag and the server version; any other exception is raised by the dispatch
  itself, with the state the handler left.
\<close>

theorem dispatch_not_implemented:
  assumes "p_typehint payload = Some t" and "handlers t = Some h"
    and "h call_id payload
           (logger DEBUG ''handle_incoming_response: in [typehint: %s, call ID: %s]''
              [AStr t, AInt call_id] st) = (Inl e, st_h)"
  shows "(e = NotImplementedError \<longrightarrow>
            handle_incoming_response env handlers call_id payload st =
              (Inr (), st_h\<lparr>log := log st_h @
                  [(ERROR, handler_not_implemented_format env t (server_version st_h), [])],
                 status_messages := status_messages st_h @
                  [handler_not_implemented_format env t (server_version st_h)]\<rparr>))
       \<and> (e \<noteq> NotImplementedError \<longrightarrow>
            handle_incoming_response env handlers call_id payload st = (Inl e, st_h))"
  using assms
  by (simp add: handle_incoming_response_def catch_def feature_not_supported_def
      logger_def status_message_def Let_def)

theorem dispatch_not_implemented_witness:
  "fst (handle_incoming_response example_collab
          ((registered_handlers example_collab)(''DebugVmError'' \<mapsto> handle_debug_vm_error)) 1
          (empty_payload\<lparr>p_typehint := Some ''DebugVmError''\<rparr>) initial_state) = Inr ()
   \<and> status_messages (snd (handle_incoming_response example_collab
          ((registered_handlers example_collab)(''DebugVmError'' \<mapsto> handle_debug_vm_error)) 1
          (empty_payload\<lparr>p_typehint := Some ''DebugVmError''\<rparr>) initial_state))
       = [''The feature DebugVmError is not supported by the current Ensime server version unknown'']
   \<and> fst (handle_incoming_response example_collab
          ((registered_handlers example_collab)(''DebugVmError'' \<mapsto> handle_debug_vm_error)) 2
          (empty_payload\<lparr>p_typehint := Some ''RefactorDiffEffect'',
             p_refactorType := Some ''ExtractMethod''\<rparr>) initial_state)
       = Inl UnboundLocalError"
proof -
  let ?H = "(registered_handlers example_collab)(''DebugVmError'' \<mapsto> handle_debug_vm_error)"
  let ?p1 = "empty_payload\<lparr>p_typehint := Some ''DebugVmError''\<rparr>"
  let ?p2 = "empty_payload\<lparr>p_typehint := Some ''RefactorDiffEffect'',
               p_refactorType := Some ''ExtractMethod''\<rparr>"
  let ?s1 = "logger DEBUG ''handle_incoming_response: in [typehint: %s, call ID: %s]''
               [AStr ''DebugVmError'', AInt 1] initial_state"
  let ?s2 = "logger DEBUG ''handle_incoming_response: in [typehint: %s, call ID: %s]''
               [AStr ''RefactorDiffEffect'', AInt 2] initial_state"
  have t1: "p_typehint ?p1 = Some ''DebugVmError''" by (simp add: empty_payload_def)
  have h1: "?H ''DebugVmError'' = Some handle_debug_vm_error" by simp
  have r1: "handle_debug_vm_error 1 ?p1 ?s1 = (Inl NotImplementedError, ?s1)"
    by (simp add: handle_debug_vm_error_def)
  have t2: "p_typehint ?p2 = Some ''RefactorDiffEffect''" by (simp add: empty_payload_def)
  have h2: "?H ''RefactorDiffEffect'' = Some (apply_refactor example_collab)"
    by (simp add: registered_handlers_def)
  have r2: "apply_refactor example_collab 2 ?p2 ?s2 = (Inl UnboundLocalError, ?s2)"
    by (simp add: apply_refactor_def refactor_locals_def empty_payload_def
        supported_refactorings_def)
  have ne: "UnboundLocalError \<noteq> NotImplementedError" by simp
  have e1: "handle_incoming_response example_collab ?H 1 ?p1 initial_state =
      (Inr (), ?s1\<lparr>log := log ?s1 @
          [(ERROR, handler_not_implemented_format example_collab ''DebugVmError''
                     (server_version ?s1), [])],
         status_messages := status_messages ?s1 @
          [handler_not_implemented_format example_collab ''DebugVmError''
             (server_version ?s1)]\<rparr>)"
    by (rule dispatch_not_implemented [where env = example_collab and payload = ?p1
          and t = "''DebugVmError''" and handlers = ?H and h = handle_debug_vm_error
          and call_id = 1 and st = initial_state and e = NotImplementedError
          and st_h = ?s1, OF t1 h1 r1, THEN conjunct1, THEN mp, OF refl])
  have e2: "handle_incoming_response example_collab ?H 2 ?p2 initial_state =
      (Inl UnboundLocalError, ?s2)"
    by (rule dispatch_not_implemented [where env = example_collab and payload = ?p2
          and t = "''RefactorDiffEffect''" and handlers = ?H
          and h = "apply_refactor example_collab"
          and call_id = 2 and st = initial_state and e = UnboundLocalError
          and st_h = ?s2, OF t2 h2 r2, THEN conjunct2, THEN mp, OF ne])
  have v: "status_messages ?s1 = []" "server_version ?s1 = ''unknown''"
    by (simp_all add: logger_def initial_state_def)
  have m: "handler_not_implemented_format example_collab ''DebugVmError'' ''unknown'' =
      ''The feature DebugVmError is not supported by the current Ensime server version unknown''"
    by (simp add: example_collab_def)
  show ?thesis by (simp add: e1 e2 v m)
qed

end
